theory Spec2Isabelle
  imports Main
begin

section \<open>JavaScript values and the browser environment\<close>

text \<open>
  The hook \<^verbatim>\<open>useRealTimeData\<close> handles plain data: arrays of flat objects whose
  fields are strings and numbers. A value held by the hook is modelled as JSON data. Its
  numbers are integers (the counters and the generated amounts are; fractional figures
  such as the conversion rate are produced as strings by \<^verbatim>\<open>toFixed\<close>). An object is
  the list of its own properties in the order \<^verbatim>\<open>Object.keys\<close> enumerates them; a
  property that is absent reads as \<^verbatim>\<open>undefined\<close>, which is \<open>None\<close>.
\<close>

datatype json =
    JNull
  | JBool bool
  | JNum int
  | JStr string
  | JArr "json list"
  | JObj "(string \<times> json) list"

datatype js_error = TypeError | GeneratorError

datatype log_line = ConsoleError string | ConsoleWarn string

text \<open>
  What \<^verbatim>\<open>localStorage.getItem('dashboardData')\<close> can hold, read through
  \<^verbatim>\<open>JSON.parse\<close>: the empty string, a text that \<^verbatim>\<open>JSON.parse\<close> rejects with a
  SyntaxError, or a text that it reads as a value. \<^verbatim>\<open>JSON.stringify\<close> of a value of
  type \<^typ>\<open>json\<close> is a text of the third kind, read back as the same value.
\<close>

datatype slot_text = EmptyText | BadText | JsonText json

text \<open>
  The two functions of the platform's \<^verbatim>\<open>Date\<close> that the hook calls are parameters:
  \<^verbatim>\<open>toISOString\<close> of a time value (milliseconds since the epoch), and
  \<^verbatim>\<open>new Date(v)\<close> for a parsed value or \<^verbatim>\<open>undefined\<close> (\<open>None\<close>), which gives the
  time value of the date or \<open>None\<close> for the invalid date.
\<close>

record platform =
  toISOString :: "int \<Rightarrow> string"
  new_Date :: "json option \<Rightarrow> int option"

text \<open>The options of the hook, with the defaults of its destructuring pattern.\<close>

record options =
  updateInterval :: nat
  autoStart :: bool
  enablePersistence :: bool

definition default_options :: options where
  "default_options = \<lparr>updateInterval = 5000, autoStart = True, enablePersistence = True\<rparr>"

text \<open>
  The state of one hook instance: the nine \<^verbatim>\<open>useState\<close> cells, the two refs, and the
  part of the browser the hook acts on (the storage slot \<^verbatim>\<open>dashboardData\<close>, the
  interval timers it has installed, the console). A state setter is a record update;
  every setter call of the source either stores a value or, for the counter, applies
  \<^verbatim>\<open>prev => prev + 1\<close>, so applying them in program order gives the state React commits.
  A function that reads a state cell (\<^verbatim>\<open>toggleRealTime\<close> reads \<^verbatim>\<open>isRealTime\<close>) reads
  the committed state: each call is made on the closure of the latest render.
  \<^verbatim>\<open>updateCount\<close> starts at 0 and is only ever reset to 0 or increased by 1, so it is a
  natural number; \<^verbatim>\<open>lastUpdated\<close> is the time value of a valid date, in milliseconds.
  The two flags of the storage say whether every access to \<^verbatim>\<open>localStorage\<close> throws
  and whether \<^verbatim>\<open>setItem\<close> throws for lack of quota.
\<close>

record hook =
  salesData :: json
  trafficData :: json
  productData :: json
  kpiData :: json
  isRealTime :: bool
  lastUpdated :: int
  updateCount :: nat
  isLoading :: bool
  error :: "string option"
  intervalRef :: "nat option"
  mountedRef :: bool
  stored :: "slot_text option"
  storage_denied :: bool
  quota_exceeded :: bool
  intervals :: "nat set"
  last_handle :: nat
  console :: "log_line list"

text \<open>
  The environment's answers during one call of \<^verbatim>\<open>generateAllData\<close>: what each of
  the four generators does (return an array or throw) and the two readings of the clock
  (\<^verbatim>\<open>setLastUpdated(new Date())\<close> and \<^verbatim>\<open>new Date().toISOString()\<close>).
\<close>

record draw =
  gen_sales :: "js_error + json"
  gen_traffic :: "js_error + json"
  gen_products :: "js_error + json"
  gen_kpis :: "js_error + json"
  clock_state :: int
  clock_persist :: int

subsection \<open>Timers\<close>

text \<open>
  \<^verbatim>\<open>setInterval\<close> returns a handle greater than zero that it has not returned before;
  every interval of the hook runs the same callback, so an active interval is its handle.
\<close>

definition setInterval :: "hook \<Rightarrow> nat \<times> hook" where
  "setInterval s =
     (Suc (last_handle s),
      s\<lparr>intervals := insert (Suc (last_handle s)) (intervals s),
        last_handle := Suc (last_handle s)\<rparr>)"

definition clearInterval :: "nat \<Rightarrow> hook \<Rightarrow> hook" where
  "clearInterval h s = s\<lparr>intervals := intervals s - {h}\<rparr>"

text \<open>The test \<^verbatim>\<open>if (intervalRef.current)\<close>: \<^verbatim>\<open>null\<close> and the number 0 are falsy.\<close>

definition handle_truthy :: "nat option \<Rightarrow> bool" where
  "handle_truthy r = (case r of None \<Rightarrow> False | Some h \<Rightarrow> h \<noteq> 0)"

section \<open>The hook\<close>

subsection \<open>persistData\<close>

definition log_line :: "log_line \<Rightarrow> hook \<Rightarrow> hook" where
  "log_line l s = s\<lparr>console := console s @ [l]\<rparr>"

definition persistData :: "json \<Rightarrow> hook \<Rightarrow> hook" where
  "persistData data s =
     (if storage_denied s \<or> quota_exceeded s
      then log_line (ConsoleWarn ''Failed to persist data:'') s
      else s\<lparr>stored := Some (JsonText data)\<rparr>)"

subsection \<open>generateAllData\<close>

text \<open>The four generator calls, in order: the first one that throws ends the sequence.\<close>

definition run_generators :: "draw \<Rightarrow> js_error + (json \<times> json \<times> json \<times> json)" where
  "run_generators d =
     (case gen_sales d of Inl e \<Rightarrow> Inl e | Inr newSalesData \<Rightarrow>
       (case gen_traffic d of Inl e \<Rightarrow> Inl e | Inr newTrafficData \<Rightarrow>
         (case gen_products d of Inl e \<Rightarrow> Inl e | Inr newProductData \<Rightarrow>
           (case gen_kpis d of Inl e \<Rightarrow> Inl e | Inr newKpiData \<Rightarrow>
              Inr (newSalesData, newTrafficData, newProductData, newKpiData)))))"

definition adopt_generated ::
  "platform \<Rightarrow> options \<Rightarrow> draw \<Rightarrow> json \<times> json \<times> json \<times> json \<Rightarrow> hook \<Rightarrow> hook" where
  "adopt_generated pf opts d new s =
     (case new of (newSalesData, newTrafficData, newProductData, newKpiData) \<Rightarrow>
        if mountedRef s
        then (let s' = s\<lparr>salesData := newSalesData, trafficData := newTrafficData,
                          productData := newProductData, kpiData := newKpiData,
                          lastUpdated := clock_state d,
                          updateCount := updateCount s + 1\<rparr>
              in if enablePersistence opts
                 then persistData
                        (JObj [(''sales'', newSalesData), (''traffic'', newTrafficData),
                               (''products'', newProductData), (''kpis'', newKpiData),
                               (''lastUpdated'', JStr (toISOString pf (clock_persist d)))])
                        s'
                 else s')
        else s)"

definition generateAllData :: "platform \<Rightarrow> options \<Rightarrow> draw \<Rightarrow> hook \<Rightarrow> hook" where
  "generateAllData pf opts d s =
     (let s1 = s\<lparr>isLoading := True, error := None\<rparr>;
          s2 = (case run_generators d of
                  Inr new \<Rightarrow> adopt_generated pf opts d new s1
                | Inl err \<Rightarrow>
                    (log_line (ConsoleError ''Error generating dashboard data:'') s1)
                      \<lparr>error := Some ''Failed to generate dashboard data''\<rparr>)
      in if mountedRef s2 then s2\<lparr>isLoading := False\<rparr> else s2)"

definition refreshData :: "platform \<Rightarrow> options \<Rightarrow> draw \<Rightarrow> hook \<Rightarrow> hook" where
  "refreshData pf opts d s = generateAllData pf opts d s"

subsection \<open>loadPersistedData\<close>

text \<open>
  Property access \<^verbatim>\<open>data.name\<close> on a parsed value: a TypeError on \<^verbatim>\<open>null\<close>, the
  property of an object, \<^verbatim>\<open>undefined\<close> on anything else (none of the names read here
  is a property of a number, a string, a boolean or an array).
\<close>

definition read_prop :: "json \<Rightarrow> string \<Rightarrow> json option" where
  "read_prop data name = (case data of JObj props \<Rightarrow> map_of props name | _ \<Rightarrow> None)"

definition get_prop :: "json \<Rightarrow> string \<Rightarrow> js_error + json option" where
  "get_prop data name = (if data = JNull then Inl TypeError else Inr (read_prop data name))"

definition truthy :: "json \<Rightarrow> bool" where
  "truthy v =
     (case v of
        JNull \<Rightarrow> False
      | JBool b \<Rightarrow> b
      | JNum n \<Rightarrow> n \<noteq> 0
      | JStr s \<Rightarrow> s \<noteq> []
      | _ \<Rightarrow> True)"

text \<open>\<^verbatim>\<open>x || []\<close>\<close>

definition or_empty_array :: "json option \<Rightarrow> json" where
  "or_empty_array x = (case x of None \<Rightarrow> JArr [] | Some v \<Rightarrow> if truthy v then v else JArr [])"

definition warn_load :: "hook \<Rightarrow> hook" where
  "warn_load s = log_line (ConsoleWarn ''Failed to load persisted data:'') s"

text \<open>
  \<open>now\<close> is the reading of the clock by \<^verbatim>\<open>const now = new Date()\<close>. The result pairs
  the returned boolean with the state. An invalid date makes \<^verbatim>\<open>timeDiff\<close> NaN, and
  \<^verbatim>\<open>NaN < 3600000\<close> is false.
\<close>

definition loadPersistedData :: "platform \<Rightarrow> int \<Rightarrow> hook \<Rightarrow> bool \<times> hook" where
  "loadPersistedData pf now s =
     (if storage_denied s then (False, warn_load s)
      else case stored s of
        None \<Rightarrow> (False, s)
      | Some EmptyText \<Rightarrow> (False, s)
      | Some BadText \<Rightarrow> (False, warn_load s)
      | Some (JsonText data) \<Rightarrow>
          (case get_prop data ''lastUpdated'' of
             Inl err \<Rightarrow> (False, warn_load s)
           | Inr lu \<Rightarrow>
               (case new_Date pf lu of
                  None \<Rightarrow> (False, s)
                | Some lastUpdate \<Rightarrow>
                    if now - lastUpdate < 3600000 \<and> mountedRef s
                    then (True,
                          s\<lparr>salesData := or_empty_array (read_prop data ''sales''),
                            trafficData := or_empty_array (read_prop data ''traffic''),
                            productData := or_empty_array (read_prop data ''products''),
                            kpiData := or_empty_array (read_prop data ''kpis''),
                            lastUpdated := lastUpdate\<rparr>)
                    else (False, s))))"

subsection \<open>startRealTime, stopRealTime, toggleRealTime\<close>

definition startRealTime :: "hook \<Rightarrow> hook" where
  "startRealTime s =
     (let s1 = (if handle_truthy (intervalRef s)
                then clearInterval (the (intervalRef s)) s else s);
          s2 = s1\<lparr>isRealTime := True\<rparr>
      in case setInterval s2 of (h, s3) \<Rightarrow> s3\<lparr>intervalRef := Some h\<rparr>)"

definition stopRealTime :: "hook \<Rightarrow> hook" where
  "stopRealTime s =
     (let s1 = (if handle_truthy (intervalRef s)
                then (clearInterval (the (intervalRef s)) s)\<lparr>intervalRef := None\<rparr>
                else s)
      in s1\<lparr>isRealTime := False\<rparr>)"

text \<open>
  \<^verbatim>\<open>toggleRealTime\<close> is rebuilt by \<^verbatim>\<open>useCallback\<close> at every render in which
  \<^verbatim>\<open>isRealTime\<close> has changed, and tests the \<^verbatim>\<open>isRealTime\<close> of that render:
  \<open>isRealTime_rendered\<close> is the value its closure has captured, whatever the setters
  have done since. A call on the closure of the latest render is
  \<open>toggleRealTime (isRealTime s) s\<close>.
\<close>

definition toggleRealTime :: "bool \<Rightarrow> hook \<Rightarrow> hook" where
  "toggleRealTime isRealTime_rendered s =
     (if isRealTime_rendered then stopRealTime s else startRealTime s)"

text \<open>
  The function handed to \<^verbatim>\<open>setInterval\<close>, and one firing of the timer with handle
  \<open>h\<close>: a cleared interval does not run its callback.
\<close>

definition interval_callback :: "platform \<Rightarrow> options \<Rightarrow> draw \<Rightarrow> hook \<Rightarrow> hook" where
  "interval_callback pf opts d s = (if mountedRef s then generateAllData pf opts d s else s)"

definition tick :: "platform \<Rightarrow> options \<Rightarrow> nat \<Rightarrow> draw \<Rightarrow> hook \<Rightarrow> hook" where
  "tick pf opts h d s = (if h \<in> intervals s then interval_callback pf opts d s else s)"

subsection \<open>clearData, updateDataset\<close>

definition clearData :: "options \<Rightarrow> hook \<Rightarrow> hook" where
  "clearData opts s =
     (let s1 = s\<lparr>salesData := JArr [], trafficData := JArr [], productData := JArr [],
                  kpiData := JArr [], updateCount := 0\<rparr>
      in if enablePersistence opts
         then (if storage_denied s1
               then log_line (ConsoleWarn ''Failed to clear persisted data:'') s1
               else s1\<lparr>stored := None\<rparr>)
         else s1)"

text \<open>\<open>now\<close> is the clock read by \<^verbatim>\<open>setLastUpdated(new Date())\<close> after the switch.\<close>

definition updateDataset :: "string \<Rightarrow> json \<Rightarrow> int \<Rightarrow> hook \<Rightarrow> hook" where
  "updateDataset datasetName newData now s =
     (let s1 = (if datasetName = ''sales'' then s\<lparr>salesData := newData\<rparr>
                else if datasetName = ''traffic'' then s\<lparr>trafficData := newData\<rparr>
                else if datasetName = ''products'' then s\<lparr>productData := newData\<rparr>
                else if datasetName = ''kpis'' then s\<lparr>kpiData := newData\<rparr>
                else log_line (ConsoleWarn (''Unknown dataset: '' @ datasetName)) s)
      in s1\<lparr>lastUpdated := now\<rparr>)"

subsection \<open>Mount, the effect on the real-time flag, unmount\<close>

text \<open>
  The state of the first render: the initial values of the \<^verbatim>\<open>useState\<close> and
  \<^verbatim>\<open>useRef\<close> calls, in a browser given by its storage slot and its two failure modes.
\<close>

definition initial_hook :: "options \<Rightarrow> int \<Rightarrow> slot_text option \<Rightarrow> bool \<Rightarrow> bool \<Rightarrow> hook" where
  "initial_hook opts now slot denied full =
     \<lparr>salesData = JArr [], trafficData = JArr [], productData = JArr [], kpiData = JArr [],
      isRealTime = autoStart opts, lastUpdated = now, updateCount = 0, isLoading = True,
      error = None, intervalRef = None, mountedRef = True,
      stored = slot, storage_denied = denied, quota_exceeded = full,
      intervals = {}, last_handle = 0, console = []\<rparr>"

text \<open>
  The effect with the empty dependency list belongs to the first render, so the
  \<^verbatim>\<open>isRealTime\<close> it tests is the initial value of that state cell, \<^verbatim>\<open>autoStart\<close>.
\<close>

definition mount_effect :: "platform \<Rightarrow> options \<Rightarrow> int \<Rightarrow> draw \<Rightarrow> hook \<Rightarrow> hook" where
  "mount_effect pf opts now d s =
     (let isRealTime_rendered = autoStart opts
      in case (if enablePersistence opts then loadPersistedData pf now s else (False, s)) of
        (dataLoaded, s1) \<Rightarrow>
          (let s2 = (if \<not> dataLoaded then generateAllData pf opts d s1 else s1)
           in if autoStart opts \<and> isRealTime_rendered then startRealTime s2 else s2))"

text \<open>
  The effect that depends on \<^verbatim>\<open>isRealTime\<close> runs after the first render and after
  every render in which the flag has changed, and tests the flag of that render.
\<close>

definition realtime_effect :: "bool \<Rightarrow> hook \<Rightarrow> hook" where
  "realtime_effect isRealTime_rendered s =
     (if isRealTime_rendered then startRealTime s else stopRealTime s)"

definition cleanup :: "hook \<Rightarrow> hook" where
  "cleanup s =
     (let s1 = s\<lparr>mountedRef := False\<rparr>
      in if handle_truthy (intervalRef s1) then clearInterval (the (intervalRef s1)) s1 else s1)"

text \<open>
  Every interval the hook has installed and not cleared is the one \<^verbatim>\<open>intervalRef\<close>
  holds. It is true of the first render and every operation keeps it.
\<close>

definition tracked :: "hook \<Rightarrow> bool" where
  "tracked s = (intervals s \<subseteq> (if handle_truthy (intervalRef s) then {the (intervalRef s)} else {}))"

subsection \<open>getDashboardData\<close>

text \<open>The object \<^verbatim>\<open>getDashboardData\<close> returns: the four sequences and the metadata.\<close>

definition getDashboardData ::
  "hook \<Rightarrow> json \<times> json \<times> json \<times> json \<times> (int \<times> nat \<times> bool \<times> bool \<times> string option)" where
  "getDashboardData s =
     (salesData s, trafficData s, productData s, kpiData s,
      (lastUpdated s, updateCount s, isRealTime s, isLoading s, error s))"

subsection \<open>Runs of the hook\<close>

text \<open>
  What can happen to a hook instance: its two effects, the six actions it returns, a
  firing of a timer, and the unmount. The toggle and the effect on the flag come with the
  value of \<^verbatim>\<open>isRealTime\<close> that the closure called has captured, which may be any render's.
  A coordinator state is what a sequence of these makes of the state of the first render.
\<close>

datatype action =
    Mount int draw
  | RealtimeEffect bool
  | Refresh draw
  | Start
  | Stop
  | Toggle bool
  | Clear
  | Update string json int
  | Fire nat draw
  | Unmount

fun perform :: "platform \<Rightarrow> options \<Rightarrow> action \<Rightarrow> hook \<Rightarrow> hook" where
  "perform pf opts (Mount now d) s = mount_effect pf opts now d s"
| "perform pf opts (RealtimeEffect isRealTime_rendered) s = realtime_effect isRealTime_rendered s"
| "perform pf opts (Refresh d) s = refreshData pf opts d s"
| "perform pf opts Start s = startRealTime s"
| "perform pf opts Stop s = stopRealTime s"
| "perform pf opts (Toggle isRealTime_rendered) s = toggleRealTime isRealTime_rendered s"
| "perform pf opts Clear s = clearData opts s"
| "perform pf opts (Update datasetName newData now) s = updateDataset datasetName newData now s"
| "perform pf opts (Fire h d) s = tick pf opts h d s"
| "perform pf opts Unmount s = cleanup s"

definition run :: "platform \<Rightarrow> options \<Rightarrow> action list \<Rightarrow> hook \<Rightarrow> hook" where
  "run pf opts acts s = fold (perform pf opts) acts s"

section \<open>Export helpers\<close>

text \<open>
  \<^verbatim>\<open>exportToCSV\<close> looks at a field value in two ways only: it asks whether the value
  is a string (\<^verbatim>\<open>typeof value === 'string'\<close>), and it lets \<^verbatim>\<open>join\<close> turn it into
  text. A field value is therefore \<^verbatim>\<open>undefined\<close>, \<^verbatim>\<open>null\<close>, a string, or any
  other value (a number, a boolean, an array, an object, a function), given by the text
  that \<^verbatim>\<open>String\<close> makes of it: the number 1 is \<open>NonString ''1''\<close>, the number 1e21 is
  \<open>NonString ''1e+21''\<close>, the array \<^verbatim>\<open>[1,2]\<close> is \<open>NonString ''1,2''\<close>. A record is a
  plain object: the list of its own enumerable properties in the order of
  \<^verbatim>\<open>Object.keys\<close>.
\<close>

datatype js_value = Undefined | Null | Str string | NonString string


abbreviation dquote :: char where
  "dquote \<equiv> CHR 0x22"













section \<open>What the specification says\<close>

subsection \<open>The persisted snapshot\<close>


subsection \<open>The layout of the exported text\<close>

text \<open>
  The text of a value, the value a record has under a field name, and texts joined by a
  separator.
\<close>

definition value_text :: "js_value \<Rightarrow> string" where
  "value_text v =
     (case v of NonString text \<Rightarrow> text | Str str \<Rightarrow> str | Null \<Rightarrow> [] | Undefined \<Rightarrow> [])"



definition quote_wrapped :: "string \<Rightarrow> string" where
  "quote_wrapped text =
     [dquote] @ concat (map (\<lambda>c. if c = dquote then [dquote, dquote] else [c]) text) @ [dquote]"

text \<open>
  The rule of the specification: any field value containing a comma or a quote character
  is wrapped in quotes with embedded quotes doubled, all other values appear bare.
\<close>

definition claimed_cell :: "js_value \<Rightarrow> string" where
  "claimed_cell v =
     (if CHR '','' \<in> set (value_text v) \<or> dquote \<in> set (value_text v)
      then quote_wrapped (value_text v) else value_text v)"

text \<open>The same rule applied to string values only; every other value appears bare.\<close>

definition string_quoting_cell :: "js_value \<Rightarrow> string" where
  "string_quoting_cell v =
     (case v of
        Str str \<Rightarrow> if CHR '','' \<in> set str \<or> dquote \<in> set str then quote_wrapped str else str
      | _ \<Rightarrow> value_text v)"


section \<open>Scenarios\<close>

text \<open>
  A fragment of the platform's date functions: the ISO text of noon (UTC) on 2 November
  2026 and its time value. \<^verbatim>\<open>new Date\<close> of \<^verbatim>\<open>undefined\<close> is the invalid date, of
  \<^verbatim>\<open>null\<close> and of a boolean or a number the date with that time value; every other
  text, and every array or object, counts as an invalid date here.
\<close>

definition demo_platform :: platform where
  "demo_platform =
     \<lparr>toISOString = (\<lambda>t. if t = 1793620800000 then ''2026-11-02T12:00:00.000Z'' else []),
      new_Date =
        (\<lambda>v. case v of
           None \<Rightarrow> None
         | Some JNull \<Rightarrow> Some 0
         | Some (JBool b) \<Rightarrow> Some (if b then 1 else 0)
         | Some (JNum n) \<Rightarrow> (if abs n \<le> 8640000000000000 then Some n else None)
         | Some (JStr str) \<Rightarrow>
             (if str = ''2026-11-02T12:00:00.000Z'' then Some 1793620800000 else None)
         | Some _ \<Rightarrow> None)\<rparr>"

definition demo_hook :: hook where
  "demo_hook = initial_hook default_options 1793620800000 None False False"

definition demo_sales :: "json list" where
  "demo_sales = [JObj [(''month'', JStr ''Nov''), (''revenue'', JNum 45000),
                       (''orders'', JNum 320), (''customers'', JNum 180),
                       (''conversion'', JStr ''3.2'')]]"

definition demo_draw :: draw where
  "demo_draw =
     \<lparr>gen_sales = Inr (JArr demo_sales), gen_traffic = Inr (JArr []),
      gen_products = Inr (JArr []), gen_kpis = Inr (JArr []),
      clock_state = 1793620800000, clock_persist = 1793620800000\<rparr>"

definition failing_draw :: draw where
  "failing_draw = demo_draw\<lparr>gen_products := Inl GeneratorError\<rparr>"

definition demo_snapshot :: json where
  "demo_snapshot =
     JObj [(''sales'', JArr demo_sales), (''traffic'', JArr []), (''products'', JArr []),
           (''kpis'', JArr []), (''lastUpdated'', JStr ''2026-11-02T12:00:00.000Z'')]"


definition no_persistence :: options where
  "no_persistence = default_options\<lparr>enablePersistence := False\<rparr>"

definition leftover_slot_hook :: hook where
  "leftover_slot_hook =
     initial_hook no_persistence 1793620800000 (Some (JsonText demo_snapshot)) False False"

text \<open>The hook after its mount with the default options: the flag is set, a timer runs.\<close>

definition mounted_hook :: hook where
  "mounted_hook =
     run demo_platform default_options [Mount 1793620800000 demo_draw, RealtimeEffect True]
       demo_hook"



section \<open>Refreshing\<close>

lemma run_generators_fails:
  "isl (gen_sales d) \<or> isl (gen_traffic d) \<or> isl (gen_products d) \<or> isl (gen_kpis d)
   \<Longrightarrow> isl (run_generators d)"
  by (auto simp: run_generators_def split: sum.splits)

lemma run_generators_returns:
  "gen_sales d = Inr a \<Longrightarrow> gen_traffic d = Inr b \<Longrightarrow> gen_products d = Inr c \<Longrightarrow>
   gen_kpis d = Inr k \<Longrightarrow> run_generators d = Inr (a, b, c, k)"
  by (simp add: run_generators_def)

text \<open>
  C1. Whatever the state, the options and the platform: when one of the four generators
  throws during \<^verbatim>\<open>refreshData\<close>, the four sequences and \<^verbatim>\<open>updateCount\<close> keep the
  values they had, and \<^verbatim>\<open>error\<close> holds the message
  \<^verbatim>\<open>Failed to generate dashboard data\<close>, so it is not null.
\<close>

theorem refresh_failure_keeps_snapshot:
  assumes "isl (gen_sales d) \<or> isl (gen_traffic d) \<or> isl (gen_products d) \<or> isl (gen_kpis d)"
  shows "salesData (refreshData pf opts d s) = salesData s
       \<and> trafficData (refreshData pf opts d s) = trafficData s
       \<and> productData (refreshData pf opts d s) = productData s
       \<and> kpiData (refreshData pf opts d s) = kpiData s
       \<and> updateCount (refreshData pf opts d s) = updateCount s
       \<and> error (refreshData pf opts d s) = Some ''Failed to generate dashboard data''
       \<and> error (refreshData pf opts d s) \<noteq> None"
proof -
  from assms have "isl (run_generators d)"
    by (rule run_generators_fails)
  then obtain e where "run_generators d = Inl e"
    by (cases "run_generators d") auto
  then show ?thesis
    by (simp add: refreshData_def generateAllData_def log_line_def Let_def)
qed

text \<open>
  C1, at a state that holds data: after one successful refresh of the first render, a
  refresh whose product generator throws leaves the sales sequence and the count of 1.
\<close>

theorem refresh_failure_keeps_snapshot_witness:
  "isl (gen_products failing_draw)
   \<and> salesData (refreshData demo_platform default_options failing_draw
        (refreshData demo_platform default_options demo_draw demo_hook)) = JArr demo_sales
   \<and> updateCount (refreshData demo_platform default_options failing_draw
        (refreshData demo_platform default_options demo_draw demo_hook)) = 1
   \<and> error (refreshData demo_platform default_options failing_draw
        (refreshData demo_platform default_options demo_draw demo_hook)) \<noteq> None"
proof -
  have failing: "isl (gen_products failing_draw)"
    by (simp add: failing_draw_def)
  have before:
    "salesData (refreshData demo_platform default_options demo_draw demo_hook) = JArr demo_sales"
    "updateCount (refreshData demo_platform default_options demo_draw demo_hook) = 1"
    by (simp_all add: refreshData_def generateAllData_def adopt_generated_def persistData_def
        run_generators_def demo_draw_def demo_hook_def initial_hook_def Let_def)
  show ?thesis
    using failing before
      refresh_failure_keeps_snapshot [of failing_draw demo_platform default_options
        "refreshData demo_platform default_options demo_draw demo_hook"]
    by simp
qed

text \<open>
  C2. On a state whose liveness flag \<^verbatim>\<open>mountedRef\<close> is set, a refresh in which the
  four generators return replaces the four sequences by what they returned, sets
  \<^verbatim>\<open>lastUpdated\<close> to the clock, adds exactly 1 to \<^verbatim>\<open>updateCount\<close>, and ends with
  \<^verbatim>\<open>isLoading\<close> false and no error. When persistence is enabled the storage slot then
  holds the new snapshot: the object of the four new sequences and the ISO text of the
  clock; only a storage that refuses the write keeps its old content, and that is logged
  as a warning. With persistence disabled the slot is left alone.
\<close>

theorem refresh_success:
  assumes live: "mountedRef s"
    and gens: "gen_sales d = Inr a" "gen_traffic d = Inr b" "gen_products d = Inr c"
      "gen_kpis d = Inr k"
  shows "salesData (refreshData pf opts d s) = a
       \<and> trafficData (refreshData pf opts d s) = b
       \<and> productData (refreshData pf opts d s) = c
       \<and> kpiData (refreshData pf opts d s) = k
       \<and> lastUpdated (refreshData pf opts d s) = clock_state d
       \<and> updateCount (refreshData pf opts d s) = updateCount s + 1
       \<and> stored (refreshData pf opts d s) =
           (if enablePersistence opts \<and> \<not> storage_denied s \<and> \<not> quota_exceeded s
            then Some (JsonText
                   (JObj [(''sales'', a), (''traffic'', b), (''products'', c), (''kpis'', k),
                          (''lastUpdated'', JStr (toISOString pf (clock_persist d)))]))
            else stored s)
       \<and> console (refreshData pf opts d s) =
           (if enablePersistence opts \<and> (storage_denied s \<or> quota_exceeded s)
            then console s @ [ConsoleWarn ''Failed to persist data:''] else console s)
       \<and> isLoading (refreshData pf opts d s) = False
       \<and> error (refreshData pf opts d s) = None"
proof -
  have "run_generators d = Inr (a, b, c, k)"
    using gens by (rule run_generators_returns)
  with live show ?thesis
    by (simp add: refreshData_def generateAllData_def adopt_generated_def persistData_def
        log_line_def Let_def)
qed

text \<open>
  C2 on the first render, with the default options and a working storage: the slot holds
  the generated sales, three empty sequences and the text of the time of the refresh.
\<close>

theorem refresh_success_witness:
  "mountedRef demo_hook
   \<and> salesData (refreshData demo_platform default_options demo_draw demo_hook) = JArr demo_sales
   \<and> lastUpdated (refreshData demo_platform default_options demo_draw demo_hook) = 1793620800000
   \<and> updateCount (refreshData demo_platform default_options demo_draw demo_hook) = 1
   \<and> stored (refreshData demo_platform default_options demo_draw demo_hook) =
       Some (JsonText
         (JObj [(''sales'', JArr demo_sales), (''traffic'', JArr []), (''products'', JArr []),
                (''kpis'', JArr []), (''lastUpdated'', JStr ''2026-11-02T12:00:00.000Z'')]))
   \<and> isLoading (refreshData demo_platform default_options demo_draw demo_hook) = False"
  using refresh_success [of demo_hook demo_draw "JArr demo_sales" "JArr []" "JArr []" "JArr []"
      demo_platform default_options]
  by (simp add: demo_draw_def demo_hook_def initial_hook_def default_options_def
      demo_platform_def)

section \<open>The persisted snapshot\<close>










section \<open>The repeating timer\<close>

subsection \<open>Every installed interval is the one in intervalRef\<close>

lemma tracked_initial: "tracked (initial_hook opts now slot denied full)"
  by (simp add: tracked_def initial_hook_def)

lemma tracked_startRealTime: "tracked s \<Longrightarrow> tracked (startRealTime s)"
  by (auto simp: tracked_def startRealTime_def setInterval_def clearInterval_def
      handle_truthy_def Let_def split: if_splits)

lemma tracked_stopRealTime: "tracked s \<Longrightarrow> tracked (stopRealTime s)"
  by (auto simp: tracked_def stopRealTime_def clearInterval_def
      handle_truthy_def Let_def split: if_splits)

lemma tracked_cleanup: "tracked s \<Longrightarrow> tracked (cleanup s)"
  by (auto simp: tracked_def cleanup_def clearInterval_def
      handle_truthy_def Let_def split: if_splits)

lemma timers_generateAllData:
  "intervals (generateAllData pf opts d s) = intervals s"
  "intervalRef (generateAllData pf opts d s) = intervalRef s"
  by (simp_all add: generateAllData_def adopt_generated_def persistData_def log_line_def Let_def
      split: sum.splits prod.splits)

lemma timers_loadPersistedData:
  "intervals (snd (loadPersistedData pf now s)) = intervals s"
  "intervalRef (snd (loadPersistedData pf now s)) = intervalRef s"
  by (simp_all add: loadPersistedData_def warn_load_def log_line_def
      split: option.splits slot_text.splits sum.splits)

lemma timers_clearData:
  "intervals (clearData opts s) = intervals s"
  "intervalRef (clearData opts s) = intervalRef s"
  by (simp_all add: clearData_def log_line_def Let_def)

lemma timers_updateDataset:
  "intervals (updateDataset datasetName newData now s) = intervals s"
  "intervalRef (updateDataset datasetName newData now s) = intervalRef s"
  by (simp_all add: updateDataset_def log_line_def Let_def)

lemma tracked_generateAllData: "tracked (generateAllData pf opts d s) = tracked s"
  by (simp only: tracked_def timers_generateAllData)

lemma tracked_loadPersistedData: "tracked (snd (loadPersistedData pf now s)) = tracked s"
  by (simp only: tracked_def timers_loadPersistedData)

lemma tracked_clearData: "tracked (clearData opts s) = tracked s"
  by (simp only: tracked_def timers_clearData)

lemma tracked_updateDataset: "tracked (updateDataset datasetName newData now s) = tracked s"
  by (simp only: tracked_def timers_updateDataset)

lemma tracked_tick: "tracked s \<Longrightarrow> tracked (tick pf opts h d s)"
  by (simp add: tick_def interval_callback_def tracked_generateAllData)

lemma tracked_mount_effect: "tracked s \<Longrightarrow> tracked (mount_effect pf opts now d s)"
proof -
  assume t: "tracked s"
  have loaded: "tracked (snd (if enablePersistence opts then loadPersistedData pf now s
                               else (False, s)))"
    using t by (simp add: tracked_loadPersistedData)
  show ?thesis
    using loaded
    by (cases "if enablePersistence opts then loadPersistedData pf now s else (False, s)")
      (simp add: mount_effect_def Let_def tracked_generateAllData tracked_startRealTime)
qed

lemma tracked_perform: "tracked s \<Longrightarrow> tracked (perform pf opts a s)"
proof (cases a)
  case (Mount now d)
  assume "tracked s"
  with Mount show ?thesis by (simp add: tracked_mount_effect)
next
  case (RealtimeEffect isRealTime_rendered)
  assume "tracked s"
  with RealtimeEffect show ?thesis
    by (simp add: realtime_effect_def tracked_startRealTime tracked_stopRealTime)
next
  case (Refresh d)
  assume "tracked s"
  with Refresh show ?thesis by (simp add: refreshData_def tracked_generateAllData)
next
  case Start
  assume "tracked s"
  with Start show ?thesis by (simp add: tracked_startRealTime)
next
  case Stop
  assume "tracked s"
  with Stop show ?thesis by (simp add: tracked_stopRealTime)
next
  case (Toggle isRealTime_rendered)
  assume "tracked s"
  with Toggle show ?thesis
    by (simp add: toggleRealTime_def tracked_startRealTime tracked_stopRealTime)
next
  case Clear
  assume "tracked s"
  with Clear show ?thesis by (simp add: tracked_clearData)
next
  case (Update datasetName newData now)
  assume "tracked s"
  with Update show ?thesis by (simp add: tracked_updateDataset)
next
  case (Fire h d)
  assume "tracked s"
  with Fire show ?thesis by (simp add: tracked_tick)
next
  case Unmount
  assume "tracked s"
  with Unmount show ?thesis by (simp add: tracked_cleanup)
qed

lemma tracked_run: "tracked s \<Longrightarrow> tracked (run pf opts acts s)"
  unfolding run_def
  by (induction acts arbitrary: s) (simp_all add: tracked_perform)

lemma tracked_reachable: "tracked (run pf opts acts (initial_hook opts now slot denied full))"
  by (rule tracked_run) (rule tracked_initial)

subsection \<open>startRealTime twice\<close>

lemma intervals_startRealTime:
  "tracked s \<Longrightarrow> intervals (startRealTime s) = {Suc (last_handle s)}"
  by (auto simp: tracked_def startRealTime_def setInterval_def clearInterval_def
      handle_truthy_def Let_def split: if_splits)

lemma intervalRef_startRealTime: "intervalRef (startRealTime s) = Some (Suc (last_handle s))"
  by (simp add: startRealTime_def setInterval_def clearInterval_def Let_def)

lemma last_handle_startRealTime: "last_handle (startRealTime s) = Suc (last_handle s)"
  by (simp add: startRealTime_def setInterval_def clearInterval_def Let_def)

lemma isRealTime_startRealTime: "isRealTime (startRealTime s)"
  by (simp add: startRealTime_def setInterval_def clearInterval_def Let_def)

lemma start_twice_tracked:
  assumes "tracked s"
  shows "intervals (startRealTime (startRealTime s)) = {Suc (Suc (last_handle s))}"
proof -
  have "tracked (startRealTime s)"
    using assms by (rule tracked_startRealTime)
  then have "intervals (startRealTime (startRealTime s)) = {Suc (last_handle (startRealTime s))}"
    by (rule intervals_startRealTime)
  then show ?thesis
    by (simp add: last_handle_startRealTime)
qed

text \<open>
  C5. Take any coordinator state: the state \<open>s\<close> that a sequence of the hook's effects,
  actions and timer firings makes of the first render. After \<^verbatim>\<open>startRealTime\<close> twice
  in a row exactly one interval is installed, the one whose handle \<^verbatim>\<open>intervalRef\<close>
  holds; the interval installed by the first call (handle \<open>h1\<close>) has been cleared by the
  second, and a firing of any handle other than the current one runs no callback, so no
  tick is duplicated.
\<close>

theorem start_twice_one_timer:
  "let s = run pf opts acts (initial_hook opts now slot denied full);
       h1 = Suc (last_handle s);
       h2 = Suc (Suc (last_handle s));
       s2 = startRealTime (startRealTime s)
   in intervalRef (startRealTime s) = Some h1
    \<and> h1 \<in> intervals (startRealTime s)
    \<and> intervalRef s2 = Some h2
    \<and> intervals s2 = {h2}
    \<and> card (intervals s2) = 1
    \<and> h1 \<notin> intervals s2
    \<and> isRealTime s2
    \<and> (h \<noteq> h2 \<longrightarrow> tick pf opts h d s2 = s2)"
proof -
  have t: "tracked (run pf opts acts (initial_hook opts now slot denied full))"
    by (rule tracked_reachable)
  show ?thesis
    using start_twice_tracked [OF t] intervals_startRealTime [OF t]
    by (simp add: Let_def intervalRef_startRealTime last_handle_startRealTime
        isRealTime_startRealTime tick_def)
qed

text \<open>
  C5 after a mount, its effect on the flag and one manual stop, which have used the
  handles 1 and 2: the two calls install the handles 3 and 4, only 4 remains, and a late
  firing of 3 changes nothing.
\<close>

theorem start_twice_one_timer_witness:
  "intervals (startRealTime (startRealTime (run demo_platform default_options
       [Mount 1793620800000 demo_draw, RealtimeEffect True, Stop] demo_hook))) = {4}
   \<and> intervalRef (startRealTime (startRealTime (run demo_platform default_options
       [Mount 1793620800000 demo_draw, RealtimeEffect True, Stop] demo_hook))) = Some 4
   \<and> tick demo_platform default_options 3 demo_draw
       (startRealTime (startRealTime (run demo_platform default_options
          [Mount 1793620800000 demo_draw, RealtimeEffect True, Stop] demo_hook)))
     = startRealTime (startRealTime (run demo_platform default_options
          [Mount 1793620800000 demo_draw, RealtimeEffect True, Stop] demo_hook))"
proof -
  have handles: "last_handle (run demo_platform default_options
      [Mount 1793620800000 demo_draw, RealtimeEffect True, Stop] demo_hook) = 2"
    by (simp add: run_def mount_effect_def realtime_effect_def loadPersistedData_def
        generateAllData_def adopt_generated_def persistData_def run_generators_def
        startRealTime_def stopRealTime_def setInterval_def clearInterval_def handle_truthy_def
        demo_hook_def initial_hook_def default_options_def demo_draw_def Let_def)
  show ?thesis
    using handles
      start_twice_one_timer [of demo_platform default_options
        "[Mount 1793620800000 demo_draw, RealtimeEffect True, Stop]" 1793620800000 None False False
        3 demo_draw]
    by (simp add: Let_def demo_hook_def eval_nat_numeral)
qed

subsection \<open>After the unmount\<close>

lemma cleanup_not_live: "\<not> mountedRef (cleanup s)"
  by (simp add: cleanup_def clearInterval_def Let_def)

lemma intervals_cleanup: "tracked s \<Longrightarrow> intervals (cleanup s) = {}"
  by (auto simp: tracked_def cleanup_def clearInterval_def handle_truthy_def Let_def
      split: if_splits)

text \<open>
  C6. On a state whose liveness flag is cleared, as it is after the cleanup of the mount
  effect, the callback of the interval returns the state it was given: the sequences,
  \<^verbatim>\<open>lastUpdated\<close>, \<^verbatim>\<open>updateCount\<close>, \<^verbatim>\<open>isLoading\<close>, \<^verbatim>\<open>error\<close> and
  \<^verbatim>\<open>isRealTime\<close> are the same after the late tick as before it, and so are the storage
  slot and the console. So is the state when the timer with handle \<open>h\<close> fires. In
  particular this is so right after the cleanup, whatever the state \<open>s0\<close> it ran on.
\<close>

theorem late_tick_is_noop:
  assumes "\<not> mountedRef s"
  shows "interval_callback pf opts d s = s
       \<and> tick pf opts h d s = s
       \<and> getDashboardData (interval_callback pf opts d s) = getDashboardData s
       \<and> interval_callback pf opts d (cleanup s0) = cleanup s0
       \<and> tick pf opts h d (cleanup s0) = cleanup s0"
  using assms by (simp add: interval_callback_def tick_def cleanup_not_live)

text \<open>C6 on a hook that was mounted, had its timer started and was then unmounted.\<close>

theorem late_tick_is_noop_witness:
  "\<not> mountedRef (cleanup (startRealTime demo_hook))
   \<and> intervals (cleanup (startRealTime demo_hook)) = {}
   \<and> interval_callback demo_platform default_options demo_draw (cleanup (startRealTime demo_hook))
       = cleanup (startRealTime demo_hook)"
  using late_tick_is_noop [of "cleanup (startRealTime demo_hook)" demo_platform default_options
      demo_draw 1]
  by (simp add: cleanup_def startRealTime_def setInterval_def clearInterval_def handle_truthy_def
      demo_hook_def initial_hook_def Let_def)

subsection \<open>toggleRealTime\<close>

lemma intervals_stopRealTime: "tracked s \<Longrightarrow> intervals (stopRealTime s) = {}"
  by (auto simp: tracked_def stopRealTime_def clearInterval_def handle_truthy_def Let_def
      split: if_splits)

lemma intervalRef_stopRealTime:
  "intervalRef s \<noteq> Some 0 \<Longrightarrow> intervalRef (stopRealTime s) = None"
  by (cases "intervalRef s") (simp_all add: stopRealTime_def clearInterval_def handle_truthy_def)

lemma last_handle_stopRealTime: "last_handle (stopRealTime s) = last_handle s"
  by (simp add: stopRealTime_def clearInterval_def Let_def)

lemma isRealTime_stopRealTime: "\<not> isRealTime (stopRealTime s)"
  by (simp add: stopRealTime_def clearInterval_def Let_def)

text \<open>The handle in \<^verbatim>\<open>intervalRef\<close> is never the falsy number 0.\<close>

lemma intervalRef_cleanup: "intervalRef (cleanup s) = intervalRef s"
  by (simp add: cleanup_def clearInterval_def Let_def)

lemma intervalRef_tick: "intervalRef (tick pf opts h d s) = intervalRef s"
  by (simp add: tick_def interval_callback_def timers_generateAllData)

lemma intervalRef_mount_effect:
  "intervalRef s \<noteq> Some 0 \<Longrightarrow> intervalRef (mount_effect pf opts now d s) \<noteq> Some 0"
proof -
  assume nz: "intervalRef s \<noteq> Some 0"
  have loaded: "intervalRef (snd (if enablePersistence opts then loadPersistedData pf now s
                                   else (False, s))) \<noteq> Some 0"
    using nz by (simp add: timers_loadPersistedData)
  show ?thesis
    using loaded
    by (cases "if enablePersistence opts then loadPersistedData pf now s else (False, s)")
      (simp add: mount_effect_def Let_def timers_generateAllData intervalRef_startRealTime)
qed

lemma intervalRef_perform:
  "intervalRef s \<noteq> Some 0 \<Longrightarrow> intervalRef (perform pf opts a s) \<noteq> Some 0"
proof (cases a)
  case (Mount now d)
  assume "intervalRef s \<noteq> Some 0"
  with Mount show ?thesis by (simp add: intervalRef_mount_effect)
next
  case (RealtimeEffect isRealTime_rendered)
  assume "intervalRef s \<noteq> Some 0"
  with RealtimeEffect show ?thesis
    by (simp add: realtime_effect_def intervalRef_startRealTime intervalRef_stopRealTime)
next
  case (Refresh d)
  assume "intervalRef s \<noteq> Some 0"
  with Refresh show ?thesis by (simp add: refreshData_def timers_generateAllData)
next
  case Start
  then show ?thesis by (simp add: intervalRef_startRealTime)
next
  case Stop
  assume "intervalRef s \<noteq> Some 0"
  with Stop show ?thesis by (simp add: intervalRef_stopRealTime)
next
  case (Toggle isRealTime_rendered)
  assume "intervalRef s \<noteq> Some 0"
  with Toggle show ?thesis
    by (simp add: toggleRealTime_def intervalRef_startRealTime intervalRef_stopRealTime)
next
  case Clear
  assume "intervalRef s \<noteq> Some 0"
  with Clear show ?thesis by (simp add: timers_clearData)
next
  case (Update datasetName newData now)
  assume "intervalRef s \<noteq> Some 0"
  with Update show ?thesis by (simp add: timers_updateDataset)
next
  case (Fire h d)
  assume "intervalRef s \<noteq> Some 0"
  with Fire show ?thesis by (simp add: intervalRef_tick)
next
  case Unmount
  assume "intervalRef s \<noteq> Some 0"
  with Unmount show ?thesis by (simp add: intervalRef_cleanup)
qed

lemma intervalRef_run:
  "intervalRef s \<noteq> Some 0 \<Longrightarrow> intervalRef (run pf opts acts s) \<noteq> Some 0"
  unfolding run_def
  by (induction acts arbitrary: s) (simp_all add: intervalRef_perform)

lemma intervalRef_reachable:
  "intervalRef (run pf opts acts (initial_hook opts now slot denied full)) \<noteq> Some 0"
  by (rule intervalRef_run) (simp add: initial_hook_def)

text \<open>One toggle on the closure of the latest render, from a flag that is set or not.\<close>

lemma toggle_from_active:
  assumes "tracked s" "intervalRef s \<noteq> Some 0" "isRealTime s"
  shows "isRealTime (toggleRealTime (isRealTime s) s) = False"
    "intervals (toggleRealTime (isRealTime s) s) = {}"
    "intervalRef (toggleRealTime (isRealTime s) s) = None"
    "last_handle (toggleRealTime (isRealTime s) s) = last_handle s"
    "tracked (toggleRealTime (isRealTime s) s)"
  using assms
  by (simp_all add: toggleRealTime_def isRealTime_stopRealTime intervals_stopRealTime
      intervalRef_stopRealTime last_handle_stopRealTime tracked_stopRealTime)

lemma toggle_from_inactive:
  assumes "tracked s" "\<not> isRealTime s"
  shows "isRealTime (toggleRealTime (isRealTime s) s) = True"
    "intervals (toggleRealTime (isRealTime s) s) = {Suc (last_handle s)}"
    "intervalRef (toggleRealTime (isRealTime s) s) = Some (Suc (last_handle s))"
    "tracked (toggleRealTime (isRealTime s) s)"
  using assms
  by (simp_all add: toggleRealTime_def isRealTime_startRealTime intervals_startRealTime
      intervalRef_startRealTime tracked_startRealTime)

lemma toggle_twice_tracked:
  assumes t: "tracked s" and nz: "intervalRef s \<noteq> Some 0"
  shows "isRealTime (toggleRealTime (isRealTime s) s) = (\<not> isRealTime s)
       \<and> intervals (toggleRealTime (isRealTime s) s) =
           (if isRealTime s then {} else {Suc (last_handle s)})
       \<and> intervalRef (toggleRealTime (isRealTime s) s) =
           (if isRealTime s then None else Some (Suc (last_handle s)))
       \<and> isRealTime (toggleRealTime (isRealTime (toggleRealTime (isRealTime s) s))
             (toggleRealTime (isRealTime s) s)) = isRealTime s
       \<and> intervals (toggleRealTime (isRealTime (toggleRealTime (isRealTime s) s))
             (toggleRealTime (isRealTime s) s)) =
           (if isRealTime s then {Suc (last_handle s)} else {})
       \<and> intervalRef (toggleRealTime (isRealTime (toggleRealTime (isRealTime s) s))
             (toggleRealTime (isRealTime s) s)) =
           (if isRealTime s then Some (Suc (last_handle s)) else None)"
proof (cases "isRealTime s")
  case True
  note first = toggle_from_active [OF t nz True]
  have inactive: "\<not> isRealTime (toggleRealTime (isRealTime s) s)"
    using first(1) by simp
  note second = toggle_from_inactive [OF first(5) inactive]
  show ?thesis
    using True first second by simp
next
  case False
  note first = toggle_from_inactive [OF t False]
  have active: "isRealTime (toggleRealTime (isRealTime s) s)"
    using first(1) by simp
  have nz1: "intervalRef (toggleRealTime (isRealTime s) s) \<noteq> Some 0"
    using first(3) by simp
  note second = toggle_from_active [OF first(4) nz1 active]
  show ?thesis
    using False first second by simp
qed

text \<open>
  The effect that follows a render in which \<^verbatim>\<open>isRealTime\<close> has changed starts or stops
  the timer once more and leaves the flag as that render had it.
\<close>

lemma realtime_effect_flag: "isRealTime (realtime_effect isRealTime_rendered s) = isRealTime_rendered"
  by (simp add: realtime_effect_def isRealTime_startRealTime isRealTime_stopRealTime)

text \<open>
  C7, as the hook has it. Take any coordinator state \<open>s\<close> and call \<^verbatim>\<open>toggleRealTime\<close>
  twice, each time on the closure of the latest render (a render separates the two
  calls, so each call tests the flag as it then is). The first call negates
  \<^verbatim>\<open>isRealTime\<close> and the second gives it its initial value back. On the transition to
  inactive the interval is cleared (no interval is left installed and \<^verbatim>\<open>intervalRef\<close>
  is null); on the transition to active exactly one interval is installed, whose handle
  \<^verbatim>\<open>intervalRef\<close> holds.
\<close>

theorem toggle_involution:
  "let s = run pf opts acts (initial_hook opts now slot denied full);
       s1 = toggleRealTime (isRealTime s) s;
       s2 = toggleRealTime (isRealTime s1) s1
   in isRealTime s1 = (\<not> isRealTime s)
    \<and> intervals s1 = (if isRealTime s then {} else {Suc (last_handle s)})
    \<and> intervalRef s1 = (if isRealTime s then None else Some (Suc (last_handle s)))
    \<and> isRealTime s2 = isRealTime s
    \<and> intervals s2 = (if isRealTime s then {Suc (last_handle s)} else {})
    \<and> intervalRef s2 = (if isRealTime s then Some (Suc (last_handle s)) else None)"
proof -
  have t: "tracked (run pf opts acts (initial_hook opts now slot denied full))"
    by (rule tracked_reachable)
  have nz: "intervalRef (run pf opts acts (initial_hook opts now slot denied full)) \<noteq> Some 0"
    by (rule intervalRef_reachable)
  show ?thesis
    unfolding Let_def by (rule toggle_twice_tracked [OF t nz])
qed

text \<open>
  C7 on the mounted hook, whose flag is set and whose timer has the handle 2: the first
  toggle clears it and leaves no interval, the second installs the interval 3.
\<close>

theorem toggle_involution_witness:
  "isRealTime mounted_hook
   \<and> intervals mounted_hook = {2}
   \<and> \<not> isRealTime (toggleRealTime (isRealTime mounted_hook) mounted_hook)
   \<and> intervals (toggleRealTime (isRealTime mounted_hook) mounted_hook) = {}
   \<and> intervalRef (toggleRealTime (isRealTime mounted_hook) mounted_hook) = None
   \<and> isRealTime (toggleRealTime False (toggleRealTime True mounted_hook))
   \<and> intervals (toggleRealTime False (toggleRealTime True mounted_hook)) = {3}
   \<and> intervalRef (toggleRealTime False (toggleRealTime True mounted_hook)) = Some 3"
proof -
  have mounted: "isRealTime mounted_hook" "intervals mounted_hook = {2}"
    "last_handle mounted_hook = 2"
    by (simp_all add: mounted_hook_def run_def mount_effect_def realtime_effect_def
        loadPersistedData_def generateAllData_def adopt_generated_def persistData_def
        run_generators_def startRealTime_def setInterval_def clearInterval_def handle_truthy_def
        demo_hook_def initial_hook_def default_options_def demo_draw_def Let_def)
  have "mounted_hook = run demo_platform default_options
      [Mount 1793620800000 demo_draw, RealtimeEffect True]
      (initial_hook default_options 1793620800000 None False False)"
    by (simp add: mounted_hook_def demo_hook_def)
  then show ?thesis
    using mounted
      toggle_involution [of demo_platform default_options
        "[Mount 1793620800000 demo_draw, RealtimeEffect True]" 1793620800000 None False False]
    by (auto simp: Let_def eval_nat_numeral)
qed

text \<open>
  C7 as the claim words it fails when the two calls are made on the same closure, with
  no render between them: both test the flag that closure has captured. On the mounted
  hook, whose flag is set, both calls stop, and the flag ends cleared with no interval
  installed instead of returning to its initial value.
\<close>

theorem toggle_involution_counterexample:
  "isRealTime mounted_hook = True
   \<and> isRealTime (toggleRealTime True (toggleRealTime True mounted_hook)) = False
   \<and> intervals (toggleRealTime True (toggleRealTime True mounted_hook)) = {}"
  by (simp add: mounted_hook_def run_def mount_effect_def realtime_effect_def
      loadPersistedData_def generateAllData_def adopt_generated_def persistData_def
      run_generators_def toggleRealTime_def startRealTime_def stopRealTime_def setInterval_def
      clearInterval_def handle_truthy_def demo_hook_def initial_hook_def default_options_def
      demo_draw_def Let_def)

section \<open>updateDataset and clearData\<close>

text \<open>
  C8, as the hook has it. For a name other than \<^verbatim>\<open>sales\<close>, \<^verbatim>\<open>traffic\<close>,
  \<^verbatim>\<open>products\<close> and \<^verbatim>\<open>kpis\<close>, \<^verbatim>\<open>updateDataset\<close> returns normally with the four
  sequences and every other field as they were, except that one warning is appended to
  the console and that \<^verbatim>\<open>lastUpdated\<close> is the clock: the statement
  \<^verbatim>\<open>setLastUpdated(new Date())\<close> follows the switch and runs for every name.
\<close>

theorem updateDataset_unknown:
  assumes "datasetName \<notin> {''sales'', ''traffic'', ''products'', ''kpis''}"
  shows "updateDataset datasetName newData now s =
           s\<lparr>lastUpdated := now,
             console := console s @ [ConsoleWarn (''Unknown dataset: '' @ datasetName)]\<rparr>"
  using assms by (simp add: updateDataset_def log_line_def Let_def)

text \<open>C8 for the name \<^verbatim>\<open>bogus\<close>, five seconds after the first render.\<close>

theorem updateDataset_unknown_witness:
  "''bogus'' \<notin> {''sales'', ''traffic'', ''products'', ''kpis''}
   \<and> updateDataset ''bogus'' (JArr [JNum 1]) 1793620805000 demo_hook =
       demo_hook\<lparr>lastUpdated := 1793620805000,
                 console := [ConsoleWarn ''Unknown dataset: bogus'']\<rparr>
   \<and> salesData (updateDataset ''bogus'' (JArr [JNum 1]) 1793620805000 demo_hook) = JArr []"
  using updateDataset_unknown [of "''bogus''" "JArr [JNum 1]" 1793620805000 demo_hook]
  by (simp add: demo_hook_def initial_hook_def)

text \<open>
  C8 as the claim words it fails: an unknown name is not a no-op on every field, since
  \<^verbatim>\<open>lastUpdated\<close> moves from the time of the first render to the time of the call.
\<close>

theorem updateDataset_unknown_counterexample:
  "lastUpdated demo_hook = 1793620800000
   \<and> lastUpdated (updateDataset ''bogus'' (JArr []) 1793620805000 demo_hook) = 1793620805000
   \<and> updateDataset ''bogus'' (JArr []) 1793620805000 demo_hook \<noteq> demo_hook"
proof -
  have "lastUpdated (updateDataset ''bogus'' (JArr []) 1793620805000 demo_hook)
      \<noteq> lastUpdated demo_hook"
    by (simp add: updateDataset_def log_line_def demo_hook_def initial_hook_def Let_def)
  then have "updateDataset ''bogus'' (JArr []) 1793620805000 demo_hook \<noteq> demo_hook"
    by auto
  then show ?thesis
    by (simp add: updateDataset_def log_line_def demo_hook_def initial_hook_def Let_def)
qed

text \<open>
  C9, as the hook has it. After \<^verbatim>\<open>clearData\<close> the four sequences are empty arrays and
  \<^verbatim>\<open>updateCount\<close> is 0. The slot is removed from the storage when persistence is
  enabled, unless the storage refuses, in which case a warning is logged and nothing else
  happens (no error is set); with persistence disabled the slot is left as it is.
\<close>

theorem clearData_result:
  "salesData (clearData opts s) = JArr []
   \<and> trafficData (clearData opts s) = JArr []
   \<and> productData (clearData opts s) = JArr []
   \<and> kpiData (clearData opts s) = JArr []
   \<and> updateCount (clearData opts s) = 0
   \<and> stored (clearData opts s) =
       (if enablePersistence opts \<and> \<not> storage_denied s then None else stored s)
   \<and> console (clearData opts s) =
       (if enablePersistence opts \<and> storage_denied s
        then console s @ [ConsoleWarn ''Failed to clear persisted data:''] else console s)
   \<and> error (clearData opts s) = error s"
  by (simp add: clearData_def log_line_def Let_def)

text \<open>
  C9 with the default options, on a hook that has refreshed once and so has persisted a
  snapshot: the slot is gone.
\<close>

theorem clearData_result_witness:
  "stored (refreshData demo_platform default_options demo_draw demo_hook)
     = Some (JsonText demo_snapshot)
   \<and> stored (clearData default_options
        (refreshData demo_platform default_options demo_draw demo_hook)) = None
   \<and> salesData (clearData default_options
        (refreshData demo_platform default_options demo_draw demo_hook)) = JArr []
   \<and> updateCount (clearData default_options
        (refreshData demo_platform default_options demo_draw demo_hook)) = 0"
proof -
  have before:
    "stored (refreshData demo_platform default_options demo_draw demo_hook)
       = Some (JsonText demo_snapshot)"
    "\<not> storage_denied (refreshData demo_platform default_options demo_draw demo_hook)"
    by (simp_all add: refreshData_def generateAllData_def adopt_generated_def persistData_def
        run_generators_def demo_draw_def demo_hook_def initial_hook_def default_options_def
        demo_snapshot_def demo_platform_def Let_def)
  show ?thesis
    using before
      clearData_result [of default_options
        "refreshData demo_platform default_options demo_draw demo_hook"]
    by (simp add: default_options_def)
qed

text \<open>
  C9 as the claim words it fails when persistence is disabled: a snapshot that an earlier
  session left in the slot is still there after \<^verbatim>\<open>clearData\<close>, which calls
  \<^verbatim>\<open>removeItem\<close> only under \<^verbatim>\<open>if (enablePersistence)\<close>.
\<close>

theorem clearData_counterexample:
  "stored leftover_slot_hook = Some (JsonText demo_snapshot)
   \<and> stored (clearData no_persistence leftover_slot_hook) = Some (JsonText demo_snapshot)
   \<and> stored (clearData no_persistence leftover_slot_hook) \<noteq> None"
  by (simp add: clearData_def leftover_slot_hook_def no_persistence_def initial_hook_def
      default_options_def Let_def)

text \<open>
  C10. \<^verbatim>\<open>clearData\<close> writes the four sequences, \<^verbatim>\<open>updateCount\<close> and the storage
  slot (and one console line when the storage refuses the removal), and nothing else: it
  leaves \<^verbatim>\<open>isRealTime\<close>, the handle in \<^verbatim>\<open>intervalRef\<close>, the installed intervals,
  the liveness flag, \<^verbatim>\<open>lastUpdated\<close>, \<^verbatim>\<open>isLoading\<close> and \<^verbatim>\<open>error\<close> as they
  were. So when real-time updates are active (the hook is live and
  the interval with handle \<open>h\<close> is installed), the next firing of that interval, with
  generators that return, puts the generated sequences in place of the empty ones and
  counts one update.
\<close>

theorem clearData_frame:
  "clearData opts s =
     s\<lparr>salesData := JArr [], trafficData := JArr [], productData := JArr [],
       kpiData := JArr [], updateCount := 0,
       stored := (if enablePersistence opts \<and> \<not> storage_denied s then None else stored s),
       console := (if enablePersistence opts \<and> storage_denied s
                   then console s @ [ConsoleWarn ''Failed to clear persisted data:'']
                   else console s)\<rparr>
   \<and> isRealTime (clearData opts s) = isRealTime s
   \<and> intervalRef (clearData opts s) = intervalRef s
   \<and> intervals (clearData opts s) = intervals s
   \<and> mountedRef (clearData opts s) = mountedRef s
   \<and> lastUpdated (clearData opts s) = lastUpdated s
   \<and> isLoading (clearData opts s) = isLoading s
   \<and> error (clearData opts s) = error s
   \<and> (mountedRef s \<and> h \<in> intervals s \<and> run_generators d = Inr (a, b, c, k) \<longrightarrow>
        salesData (tick pf opts h d (clearData opts s)) = a
      \<and> trafficData (tick pf opts h d (clearData opts s)) = b
      \<and> productData (tick pf opts h d (clearData opts s)) = c
      \<and> kpiData (tick pf opts h d (clearData opts s)) = k
      \<and> updateCount (tick pf opts h d (clearData opts s)) = 1)"
  by (simp add: clearData_def log_line_def tick_def interval_callback_def generateAllData_def
      adopt_generated_def persistData_def Let_def)

text \<open>
  C10 on a hook whose timer was started on the first render: after \<^verbatim>\<open>clearData\<close> the
  interval 1 is still installed, and its next firing brings the sales sequence back.
\<close>

theorem clearData_frame_witness:
  "mountedRef (startRealTime demo_hook)
   \<and> 1 \<in> intervals (startRealTime demo_hook)
   \<and> run_generators demo_draw = Inr (JArr demo_sales, JArr [], JArr [], JArr [])
   \<and> intervals (clearData default_options (startRealTime demo_hook)) = {1}
   \<and> salesData (clearData default_options (startRealTime demo_hook)) = JArr []
   \<and> salesData (tick demo_platform default_options 1 demo_draw
        (clearData default_options (startRealTime demo_hook))) = JArr demo_sales
   \<and> updateCount (tick demo_platform default_options 1 demo_draw
        (clearData default_options (startRealTime demo_hook))) = 1"
proof -
  have started: "mountedRef (startRealTime demo_hook)" "intervals (startRealTime demo_hook) = {1}"
    by (simp_all add: startRealTime_def setInterval_def handle_truthy_def demo_hook_def
        initial_hook_def Let_def)
  have gens: "run_generators demo_draw = Inr (JArr demo_sales, JArr [], JArr [], JArr [])"
    by (simp add: run_generators_def demo_draw_def)
  have cleared: "salesData (clearData default_options (startRealTime demo_hook)) = JArr []"
    by (simp add: clearData_def log_line_def Let_def)
  show ?thesis
    using started gens cleared
      clearData_frame [of default_options "startRealTime demo_hook" 1 demo_draw
        "JArr demo_sales" "JArr []" "JArr []" "JArr []" demo_platform, THEN conjunct2]
    by simp
qed

section \<open>Export to delimited text\<close>








text \<open>
  Where no value other than a string prints with a comma or a quote (numbers and
  booleans never do), quoting the strings is quoting every value that contains one.
\<close>

lemma claimed_cell_plain:
  "(case v of NonString text \<Rightarrow> CHR '','' \<notin> set text \<and> dquote \<notin> set text | _ \<Rightarrow> True) \<Longrightarrow>
   claimed_cell v = string_quoting_cell v"
  by (cases v) (simp_all add: claimed_cell_def string_quoting_cell_def value_text_def)




end
